theory Spec2Isabelle
  imports Complex_Main "HOL-Library.Product_Lexorder" "HOL-Library.AList" "HOL-Library.Multiset"
begin

section \<open>The debasement dashboard script (src/src/main.py)\<close>

text \<open>
  The program is one Python script over pandas data frames.  It loads four price series,
  merges the two Big Mac segments, adds an affordability column to every frame, and
  rebases each series to a percentage of its first value on or after 1995-01-01, once per
  series and once more for the combined chart.

  The embedding follows the script block by block.  A data frame is the list of its rows
  together with the names of its value columns; the \<open>date\<close> column is the first component
  of every row.  A float64 cell is an exact real extended by the two infinities and NaN
  (pandas' missing value): rounding, overflow and the sign of zero are not represented.
  Every row has a date: a missing date (NaT) is not represented, and the column names the
  script reads are the ones its loaders set, so reading a column cannot fail.
  An uncaught Python exception is a value of type \<open>error\<close>.  Reading the CSV files,
  writing CSV files and drawing charts are outside the model: the model starts from the
  frames the loaders produce and ends at the frames handed to the plotting calls.
\<close>

subsection \<open>Dates and floats\<close>

text \<open>A calendar date is (year, month, day); the lexicographic order is the chronological one.\<close>

type_synonym date = "int \<times> nat \<times> nat"

definition year_of :: "date \<Rightarrow> int" where
  "year_of d = fst d"

text \<open>The label pandas gives the bin of the frequency \<open>YE\<close>: the last day of the year.\<close>

definition year_end :: "int \<Rightarrow> date" where
  "year_end y = (y, 12, 31)"

text \<open>\<open>pd.to_datetime('1995-01-01')\<close>, the constant every block filters with.\<close>

definition cutoff :: date where
  "cutoff = (1995, 1, 1)"

datatype fval = Fin real | PInf | NInf | NaN

text \<open>
  numpy's true division: a division by zero raises nothing, it yields an infinity of the
  sign of the numerator, and NaN for 0/0.
\<close>

fun fdiv :: "fval \<Rightarrow> fval \<Rightarrow> fval" where
  "fdiv NaN b = NaN"
| "fdiv a NaN = NaN"
| "fdiv (Fin x) (Fin y) =
     (if y \<noteq> 0 then Fin (x / y) else if x = 0 then NaN else if 0 < x then PInf else NInf)"
| "fdiv (Fin x) PInf = Fin 0"
| "fdiv (Fin x) NInf = Fin 0"
| "fdiv PInf (Fin y) = (if 0 \<le> y then PInf else NInf)"
| "fdiv NInf (Fin y) = (if 0 \<le> y then NInf else PInf)"
| "fdiv PInf PInf = NaN"
| "fdiv PInf NInf = NaN"
| "fdiv NInf PInf = NaN"
| "fdiv NInf NInf = NaN"

fun fmul :: "fval \<Rightarrow> fval \<Rightarrow> fval" where
  "fmul NaN b = NaN"
| "fmul a NaN = NaN"
| "fmul (Fin x) (Fin y) = Fin (x * y)"
| "fmul (Fin x) PInf = (if x = 0 then NaN else if 0 < x then PInf else NInf)"
| "fmul (Fin x) NInf = (if x = 0 then NaN else if 0 < x then NInf else PInf)"
| "fmul PInf (Fin y) = (if y = 0 then NaN else if 0 < y then PInf else NInf)"
| "fmul NInf (Fin y) = (if y = 0 then NaN else if 0 < y then NInf else PInf)"
| "fmul PInf PInf = PInf"
| "fmul PInf NInf = NInf"
| "fmul NInf PInf = NInf"
| "fmul NInf NInf = PInf"

fun fadd :: "fval \<Rightarrow> fval \<Rightarrow> fval" where
  "fadd NaN b = NaN"
| "fadd a NaN = NaN"
| "fadd (Fin x) (Fin y) = Fin (x + y)"
| "fadd (Fin x) PInf = PInf"
| "fadd (Fin x) NInf = NInf"
| "fadd PInf (Fin y) = PInf"
| "fadd NInf (Fin y) = NInf"
| "fadd PInf PInf = PInf"
| "fadd PInf NInf = NaN"
| "fadd NInf PInf = NaN"
| "fadd NInf NInf = NInf"

text \<open>
  The two aggregations the script resamples with.  Both skip missing values, as pandas
  does by default: \<open>mean\<close> is the sum of the values present over their number, \<open>last\<close> is
  the last value present, and either is NaN for a group with no value present.
\<close>

definition fmean :: "fval list \<Rightarrow> fval" where
  "fmean vs =
     (let xs = filter (\<lambda>v. v \<noteq> NaN) vs
      in if xs = [] then NaN else fdiv (foldl fadd (Fin 0) xs) (Fin (real (length xs))))"

definition flast :: "fval list \<Rightarrow> fval" where
  "flast vs =
     (let xs = filter (\<lambda>v. v \<noteq> NaN) vs
      in if xs = [] then NaN else last xs)"

subsection \<open>Data frames\<close>

datatype error = KeyError | IndexError

type_synonym row = "date \<times> (string \<times> fval) list"

record frame =
  columns :: "string list"
  rows :: "row list"

text \<open>A cell a row does not hold reads as NaN, as in a pandas frame.\<close>

definition cell :: "row \<Rightarrow> string \<Rightarrow> fval" where
  "cell r c = (case map_of (snd r) c of None \<Rightarrow> NaN | Some v \<Rightarrow> v)"

text \<open>\<open>df[c]\<close>: the values of one column, in row order.\<close>

definition column :: "frame \<Rightarrow> string \<Rightarrow> fval list" where
  "column df c = map (\<lambda>r. cell r c) (rows df)"

text \<open>
  \<open>df[c] = e\<close> for an expression \<open>e\<close> computed elementwise from columns of \<open>df\<close>: the
  frame gains the column \<open>c\<close> (or has it overwritten) in place.
\<close>

definition assign :: "frame \<Rightarrow> string \<Rightarrow> (row \<Rightarrow> fval) \<Rightarrow> frame" where
  "assign df c f =
     \<lparr>columns = (if c \<in> set (columns df) then columns df else columns df @ [c]),
      rows = map (\<lambda>r. (fst r, AList.update c (f r) (snd r))) (rows df)\<rparr>"

text \<open>\<open>df[['date', c1, ..., cn]]\<close>: a new frame of the named columns.\<close>

definition select :: "frame \<Rightarrow> string list \<Rightarrow> frame" where
  "select df cs =
     \<lparr>columns = cs, rows = map (\<lambda>r. (fst r, map (\<lambda>c. (c, cell r c)) cs)) (rows df)\<rparr>"

text \<open>\<open>df.dropna()\<close>: the rows with no missing cell.  An infinity is not missing.\<close>

definition dropna :: "frame \<Rightarrow> frame" where
  "dropna df = df\<lparr>rows := filter (\<lambda>r. list_all (\<lambda>c. cell r c \<noteq> NaN) (columns df)) (rows df)\<rparr>"

text \<open>\<open>df[df['date'] >= pd.to_datetime('1995-01-01')]\<close>.\<close>

definition from_cutoff :: "frame \<Rightarrow> frame" where
  "from_cutoff df = df\<lparr>rows := filter (\<lambda>r. cutoff \<le> fst r) (rows df)\<rparr>"

text \<open>
  \<open>drop_duplicates(subset=['date'])\<close> with pandas' default \<open>keep='first'\<close>: a row is
  dropped when an earlier row has its date.
\<close>

fun drop_dups :: "date list \<Rightarrow> row list \<Rightarrow> row list" where
  "drop_dups seen [] = []"
| "drop_dups seen (r # rs) =
     (if fst r \<in> set seen then drop_dups seen rs else r # drop_dups (fst r # seen) rs)"

definition drop_duplicates :: "frame \<Rightarrow> frame" where
  "drop_duplicates df = df\<lparr>rows := drop_dups [] (rows df)\<rparr>"

text \<open>
  \<open>sort_values('date')\<close>.  The script sorts only a frame whose dates are already unique,
  so the order among equal dates (pandas' default sort is not stable) plays no part.
\<close>

definition sort_values :: "frame \<Rightarrow> frame" where
  "sort_values df = df\<lparr>rows := sort_key fst (rows df)\<rparr>"

text \<open>
  \<open>df.set_index('date').resample('YE').agg().reset_index()\<close>.  pandas orders the rows by
  date (a stable sort), lays one bin per calendar year from the year of the first date to
  the year of the last, and aggregates every column over the rows of each bin.  A year
  in that range with no row still has its bin, and so its output row.  An empty frame
  stays empty.
\<close>

definition resample_YE :: "(fval list \<Rightarrow> fval) \<Rightarrow> frame \<Rightarrow> frame" where
  "resample_YE agg df =
     (let rs = sort_key fst (rows df)
      in if rs = [] then df\<lparr>rows := []\<rparr>
         else df\<lparr>rows :=
           map (\<lambda>y. (year_end y,
                  map (\<lambda>c. (c, agg (map (\<lambda>r. cell r c) (filter (\<lambda>r. year_of (fst r) = y) rs))))
                      (columns df)))
               [year_of (fst (hd rs)) .. year_of (fst (last rs))]\<rparr>)"

text \<open>
  The idiom every chart block ends with:
  \<^verbatim>\<open>initial = df[src].iloc[0]\<close>, \<^verbatim>\<open>df[dst] = (df[src] / initial) * 100\<close>.
  \<open>iloc[0]\<close> on an empty column raises IndexError.
\<close>

definition rebase :: "frame \<Rightarrow> string \<Rightarrow> string \<Rightarrow> error + frame" where
  "rebase df src dst =
     (case column df src of
        [] \<Rightarrow> Inl IndexError
      | initial # _ \<Rightarrow> Inr (assign df dst (\<lambda>r. fmul (fdiv (cell r src) initial) (Fin 100))))"

subsection \<open>Loading and merging (lines 63 to 122)\<close>

text \<open>
  What a loader leaves behind: a frame with the date and one value column.
\<close>

definition load :: "string \<Rightarrow> (date \<times> fval) list \<Rightarrow> frame" where
  "load c raw = \<lparr>columns = [c], rows = map (\<lambda>(d, v). (d, [(c, v)])) raw\<rparr>"

text \<open>
  \<open>pd.concat([historical, current])\<close>.  A segment whose file does not exist is
  \<open>pd.DataFrame()\<close>, a frame with no column at all, here \<open>None\<close>.
\<close>

fun concat_frames :: "frame option \<Rightarrow> frame option \<Rightarrow> frame option" where
  "concat_frames None None = None"
| "concat_frames (Some a) None = Some a"
| "concat_frames None (Some b) = Some b"
| "concat_frames (Some a) (Some b) =
     Some \<lparr>columns = columns a @ filter (\<lambda>c. c \<notin> set (columns a)) (columns b),
           rows = rows a @ rows b\<rparr>"

text \<open>
  Line 120.  With both files absent the concatenation has no \<open>date\<close> column and
  \<open>drop_duplicates(subset=['date'])\<close> raises KeyError.
\<close>

definition bigmac_combined :: "frame option \<Rightarrow> frame option \<Rightarrow> error + frame" where
  "bigmac_combined historical current =
     (case concat_frames historical current of
        None \<Rightarrow> Inl KeyError
      | Some df \<Rightarrow> Inr (sort_values (drop_duplicates df)))"

subsection \<open>The summary section (lines 127 to 140)\<close>

text \<open>
  The script's variables after the summary section.  \<open>bigmac\<close> is never \<open>None\<close>; each of
  the others is \<open>None\<close> when its loader failed.  \<open>summary\<close> is a Python dict, kept in
  insertion order.
\<close>

record env =
  bigmac :: frame
  gasoline :: "frame option"
  msp :: "frame option"
  cpi :: "frame option"
  summary :: "(string \<times> frame) list"

definition build_summary :: "frame \<Rightarrow> frame option \<Rightarrow> frame option \<Rightarrow> frame option \<Rightarrow> env" where
  "build_summary bm g m c =
     (let bm' = assign bm ''bigmac_per_10k'' (\<lambda>r. fdiv (Fin 10000) (cell r ''price''));
          s1 = AList.update ''bigmac'' (dropna (select bm' [''price'', ''bigmac_per_10k''])) [];
          g' = map_option (\<lambda>df. assign df ''gallon_per_10k'' (\<lambda>r. fdiv (Fin 10000) (cell r ''price''))) g;
          s2 = (case g' of None \<Rightarrow> s1
                | Some df \<Rightarrow> AList.update ''gasoline'' (select df [''price'', ''gallon_per_10k'']) s1);
          m' = map_option (\<lambda>df. assign df ''homes_per_10k'' (\<lambda>r. fdiv (Fin 10000) (cell r ''value''))) m;
          s3 = (case m' of None \<Rightarrow> s2
                | Some df \<Rightarrow> AList.update ''median_home'' (select df [''value'', ''homes_per_10k'']) s2);
          c' = map_option (\<lambda>df. assign df ''inverted_pct'' (\<lambda>r. fdiv (Fin 1) (cell r ''value''))) c;
          s4 = (case c' of None \<Rightarrow> s3
                | Some df \<Rightarrow> AList.update ''cpi'' (select df [''value'', ''inverted_pct'']) s3)
      in \<lparr>bigmac = bm', gasoline = g', msp = m', cpi = c', summary = s4\<rparr>)"

subsection \<open>The chart blocks (lines 150 to 248)\<close>

text \<open>Each block is guarded by \<open>if k in summary\<close>, and is skipped when the key is absent.\<close>

definition bind_err :: "error + 'a \<Rightarrow> ('a \<Rightarrow> error + 'b) \<Rightarrow> error + 'b" where
  "bind_err m f = (case m of Inl e \<Rightarrow> Inl e | Inr x \<Rightarrow> f x)"

definition when_present :: "frame option \<Rightarrow> (frame \<Rightarrow> error + frame) \<Rightarrow> error + frame option" where
  "when_present entry block =
     (case entry of None \<Rightarrow> Inr None | Some df \<Rightarrow> bind_err (block df) (\<lambda>out. Inr (Some out)))"

text \<open>Lines 150 to 154: the Big Mac chart, on the merged dates themselves.\<close>

definition bigmac_chart :: "frame \<Rightarrow> error + frame" where
  "bigmac_chart df = rebase (from_cutoff df) ''bigmac_per_10k'' ''bigmac_pct''"

text \<open>Lines 165 to 171: gasoline, annual means.\<close>

definition gasoline_chart :: "frame \<Rightarrow> error + frame" where
  "gasoline_chart df = rebase (resample_YE fmean (from_cutoff df)) ''gallon_per_10k'' ''gallon_pct''"

text \<open>Lines 182 to 188: median home, the last value of each year.\<close>

definition median_home_chart :: "frame \<Rightarrow> error + frame" where
  "median_home_chart df = rebase (resample_YE flast (from_cutoff df)) ''homes_per_10k'' ''homes_pct''"

text \<open>
  Lines 199 to 204: inverted CPI.  This block reads the variable \<open>cpi\<close>, which the
  summary section has given the column \<open>inverted_pct\<close>; the rebasing overwrites that
  column of the annual frame.
\<close>

definition cpi_chart :: "frame \<Rightarrow> error + frame" where
  "cpi_chart cpi_df =
     (let cpi_filtered = assign (from_cutoff cpi_df) ''inverted'' (\<lambda>r. fdiv (Fin 1) (cell r ''value''))
      in rebase (resample_YE fmean cpi_filtered) ''inverted'' ''inverted_pct'')"

text \<open>Lines 218 to 248: the four entries of \<open>combined_data\<close>.\<close>

definition bm_ann :: "frame \<Rightarrow> error + frame" where
  "bm_ann df = rebase (resample_YE fmean (from_cutoff df)) ''bigmac_per_10k'' ''pct''"

definition gas_ann :: "frame \<Rightarrow> error + frame" where
  "gas_ann df = rebase (resample_YE fmean (from_cutoff df)) ''gallon_per_10k'' ''pct''"

definition home_ann :: "frame \<Rightarrow> error + frame" where
  "home_ann df = rebase (resample_YE flast (from_cutoff df)) ''homes_per_10k'' ''pct''"

definition ann_cpi :: "frame \<Rightarrow> error + frame" where
  "ann_cpi df = rebase (resample_YE fmean (from_cutoff df)) ''inverted_pct'' ''pct''"

text \<open>\<open>combined_data[label] = frame\<close> when the block ran.\<close>

definition put :: "string \<Rightarrow> frame option \<Rightarrow> (string \<times> frame) list \<Rightarrow> (string \<times> frame) list" where
  "put label entry d = (case entry of None \<Rightarrow> d | Some df \<Rightarrow> AList.update label df d)"

subsection \<open>The whole run\<close>

record sources =
  cpi_csv :: "(date \<times> fval) list option"
  msp_csv :: "(date \<times> fval) list option"
  gasoline_csv :: "(date \<times> fval) list option"
  historical_csv :: "(date \<times> fval) list option"
  current_csv :: "(date \<times> fval) list option"

record report =
  charts :: "(string \<times> frame) list"
  combined_data :: "(string \<times> frame) list"

text \<open>
  Lines 150 to 248, in their order.  No block catches an exception, so the first one
  raised ends the run.  The CPI chart block is guarded by the summary key but reads the
  variable \<open>cpi\<close>.
\<close>

definition chart_section :: "env \<Rightarrow> error + report" where
  "chart_section e =
     bind_err (when_present (map_of (summary e) ''bigmac'') bigmac_chart) (\<lambda>p1.
     bind_err (when_present (map_of (summary e) ''gasoline'') gasoline_chart) (\<lambda>p2.
     bind_err (when_present (map_of (summary e) ''median_home'') median_home_chart) (\<lambda>p3.
     bind_err (when_present (if map_of (summary e) ''cpi'' = None then None else cpi e) cpi_chart) (\<lambda>p4.
     bind_err (when_present (map_of (summary e) ''bigmac'') bm_ann) (\<lambda>c1.
     bind_err (when_present (map_of (summary e) ''gasoline'') gas_ann) (\<lambda>c2.
     bind_err (when_present (map_of (summary e) ''median_home'') home_ann) (\<lambda>c3.
     bind_err (when_present (map_of (summary e) ''cpi'') ann_cpi) (\<lambda>c4.
     Inr \<lparr>charts = put ''cpi'' p4 (put ''median_home'' p3 (put ''gasoline'' p2 (put ''bigmac'' p1 []))),
          combined_data = put ''Inverted CPI'' c4 (put ''Median Home'' c3
                            (put ''Gasoline'' c2 (put ''Big Mac'' c1 [])))\<rparr>))))))))"

text \<open>The script from line 120 on.\<close>

definition main :: "sources \<Rightarrow> error + report" where
  "main src =
     bind_err (bigmac_combined (map_option (load ''price'') (historical_csv src))
                               (map_option (load ''price'') (current_csv src))) (\<lambda>bm.
     chart_section (build_summary bm (map_option (load ''price'') (gasoline_csv src))
                                     (map_option (load ''value'') (msp_csv src))
                                     (map_option (load ''value'') (cpi_csv src))))"

section \<open>Properties\<close>

subsection \<open>Merging the Big Mac segments\<close>

lemma drop_dups_fst:
  "set (map fst (drop_dups seen rs)) = fst ` set rs - set seen"
  by (induction rs arbitrary: seen) auto

lemma drop_dups_distinct: "distinct (map fst (drop_dups seen rs))"
proof (induction rs arbitrary: seen)
  case Nil
  show ?case by simp
next
  case (Cons r rs)
  have "fst r \<notin> set (map fst (drop_dups (fst r # seen) rs))"
    unfolding drop_dups_fst by simp
  with Cons show ?case by simp
qed

lemma drop_dups_map_of:
  "map_of (map (\<lambda>r. (fst r, f r)) (drop_dups seen rs)) d =
     (if d \<in> set seen then None else map_of (map (\<lambda>r. (fst r, f r)) rs) d)"
  by (induction rs arbitrary: seen) auto

lemma sort_key_map_of:
  assumes "distinct (map fst rs)"
  shows "map_of (map (\<lambda>r. (fst r, f r)) (sort_key fst rs)) = map_of (map (\<lambda>r. (fst r, f r)) rs)"
proof -
  have a: "map fst (map (\<lambda>r. (fst r, f r)) (sort_key fst rs)) = map fst (sort_key fst rs)"
    by (simp add: comp_def)
  have b: "map fst (map (\<lambda>r. (fst r, f r)) rs) = map fst rs"
    by (simp add: comp_def)
  have d1: "distinct (map fst (map (\<lambda>r. (fst r, f r)) (sort_key fst rs)))"
    unfolding a using assms by (simp add: distinct_map)
  have d2: "distinct (map fst (map (\<lambda>r. (fst r, f r)) rs))"
    unfolding b using assms .
  have s: "set (map (\<lambda>r. (fst r, f r)) (sort_key fst rs)) = set (map (\<lambda>r. (fst r, f r)) rs)"
    by simp
  show ?thesis using map_of_inject_set[OF d1 d2] s by blast
qed

lemma load_project:
  "map (\<lambda>r. (fst r, cell r c)) (rows (load c raw)) = raw"
  by (induction raw) (auto simp: load_def cell_def)

lemma load_dates: "map fst (rows (load c raw)) = map fst raw"
  by (induction raw) (auto simp: load_def)

text \<open>
  C1, as the code has it.  For any two segments \<open>h\<close> (historical, listed first) and \<open>c\<close>
  (current, listed second), line 120 succeeds and yields a frame whose dates are sorted
  ascending without repetition, are exactly the dates of the two segments, and whose
  price at each date is the one of the first row of \<open>h @ c\<close> with that date
  (\<open>map_of\<close> returns the first match): on a date both segments have, the earlier-listed
  segment gives the value.
\<close>

theorem bigmac_combined_first_wins:
  "\<exists>m. bigmac_combined (Some (load ''price'' h)) (Some (load ''price'' c)) = Inr m
     \<and> columns m = [''price'']
     \<and> sorted (map fst (rows m)) \<and> distinct (map fst (rows m))
     \<and> set (map fst (rows m)) = fst ` set (h @ c)
     \<and> map_of (map (\<lambda>r. (fst r, cell r ''price'')) (rows m)) = map_of (h @ c)"
proof -
  let ?R = "rows (load ''price'' (h @ c))"
  let ?m = "sort_values (drop_duplicates \<lparr>columns = [''price''], rows = ?R\<rparr>)"
  have run: "bigmac_combined (Some (load ''price'' h)) (Some (load ''price'' c)) = Inr ?m"
    by (simp add: bigmac_combined_def load_def)
  have rows_m: "rows ?m = sort_key fst (drop_dups [] ?R)"
    by (simp add: sort_values_def drop_duplicates_def)
  have cols: "columns ?m = [''price'']"
    by (simp add: sort_values_def drop_duplicates_def)
  have srt: "sorted (map fst (rows ?m))"
    unfolding rows_m by simp
  have dst: "distinct (map fst (rows ?m))"
    unfolding rows_m using drop_dups_distinct[of "[]" ?R] by (simp add: distinct_map)
  have "set (map fst (rows ?m)) = fst ` set ?R"
    unfolding rows_m using drop_dups_fst[of "[]" ?R] by simp
  also have "\<dots> = set (map fst ?R)" by simp
  also have "\<dots> = fst ` set (h @ c)" unfolding load_dates by (simp add: image_Un)
  finally have dates: "set (map fst (rows ?m)) = fst ` set (h @ c)" .
  have "map_of (map (\<lambda>r. (fst r, cell r ''price'')) (rows ?m))
          = map_of (map (\<lambda>r. (fst r, cell r ''price'')) (drop_dups [] ?R))"
    unfolding rows_m by (rule sort_key_map_of) (rule drop_dups_distinct)
  also have "\<dots> = map_of (map (\<lambda>r. (fst r, cell r ''price'')) ?R)"
    by (rule ext) (simp add: drop_dups_map_of)
  also have "\<dots> = map_of (h @ c)"
    unfolding load_project ..
  finally have vals: "map_of (map (\<lambda>r. (fst r, cell r ''price'')) (rows ?m)) = map_of (h @ c)" .
  from run cols srt dst dates vals show ?thesis by blast
qed

text \<open>
  C1 as stated fails: with the date 2000-04-01 in both segments, at 2.5 in the historical
  one and 3.0 in the current one, the merged frame holds 2.5, not the later-listed 3.0.
\<close>

theorem bigmac_combined_later_loses:
  "bigmac_combined (Some (load ''price'' [((2000, 4, 1), Fin 2.5)]))
                   (Some (load ''price'' [((2000, 4, 1), Fin 3)]))
     = Inr \<lparr>columns = [''price''], rows = [((2000, 4, 1), [(''price'', Fin 2.5)])]\<rparr>
   \<and> bigmac_combined (Some (load ''price'' [((2000, 4, 1), Fin 2.5)]))
                   (Some (load ''price'' [((2000, 4, 1), Fin 3)]))
     \<noteq> Inr \<lparr>columns = [''price''], rows = [((2000, 4, 1), [(''price'', Fin 3)])]\<rparr>"
  by (simp add: bigmac_combined_def load_def sort_values_def drop_duplicates_def)

subsection \<open>The affordability columns\<close>

lemma fdiv_NaN_iff: "fdiv (Fin u) p = NaN \<longleftrightarrow> p = NaN \<or> (u = 0 \<and> p = Fin 0)"
  by (cases p) auto

text \<open>
  C2, as the code has it.  The summary section gives every frame its affordability
  column by one elementwise division, which raises nothing.  For gasoline, median home
  and CPI the summary entry has exactly one row per input row: nothing is dropped.  For
  the Big Mac frame \<open>dropna\<close> removes the rows whose price is missing, and only those.
  Every row kept carries the quotient of the unit amount (10000, or 1 for CPI) by its
  price under float division: \<open>10000 / x\<close> for a nonzero price \<open>x\<close>, infinity for a
  price of zero, NaN for a missing price.
\<close>

theorem affordability_rows:
  "map_of (summary (build_summary (load ''price'' b) g m c)) ''bigmac''
     = Some \<lparr>columns = [''price'', ''bigmac_per_10k''],
             rows = map (\<lambda>(d, p). (d, [(''price'', p), (''bigmac_per_10k'', fdiv (Fin 10000) p)]))
                        (filter (\<lambda>(d, p). p \<noteq> NaN) b)\<rparr>
   \<and> map_of (summary (build_summary bm (Some (load ''price'' gs)) m c)) ''gasoline''
     = Some \<lparr>columns = [''price'', ''gallon_per_10k''],
             rows = map (\<lambda>(d, p). (d, [(''price'', p), (''gallon_per_10k'', fdiv (Fin 10000) p)])) gs\<rparr>
   \<and> map_of (summary (build_summary bm g (Some (load ''value'' ms)) c)) ''median_home''
     = Some \<lparr>columns = [''value'', ''homes_per_10k''],
             rows = map (\<lambda>(d, p). (d, [(''value'', p), (''homes_per_10k'', fdiv (Fin 10000) p)])) ms\<rparr>
   \<and> map_of (summary (build_summary bm g m (Some (load ''value'' cs)))) ''cpi''
     = Some \<lparr>columns = [''value'', ''inverted_pct''],
             rows = map (\<lambda>(d, p). (d, [(''value'', p), (''inverted_pct'', fdiv (Fin 1) p)])) cs\<rparr>
   \<and> fdiv (Fin 10000) (Fin x) = (if x = 0 then PInf else Fin (10000 / x))
   \<and> fdiv (Fin 10000) NaN = NaN"
proof -
  have bmac: "map_of (summary (build_summary (load ''price'' b) g m c)) ''bigmac''
     = Some \<lparr>columns = [''price'', ''bigmac_per_10k''],
             rows = map (\<lambda>(d, p). (d, [(''price'', p), (''bigmac_per_10k'', fdiv (Fin 10000) p)]))
                        (filter (\<lambda>(d, p). p \<noteq> NaN) b)\<rparr>"
    by (cases g; cases m; cases c)
       (simp_all add: build_summary_def assign_def select_def dropna_def load_def cell_def
          filter_map comp_def split_def fdiv_NaN_iff)
  have gas: "map_of (summary (build_summary bm (Some (load ''price'' gs)) m c)) ''gasoline''
     = Some \<lparr>columns = [''price'', ''gallon_per_10k''],
             rows = map (\<lambda>(d, p). (d, [(''price'', p), (''gallon_per_10k'', fdiv (Fin 10000) p)])) gs\<rparr>"
    by (cases m; cases c)
       (simp_all add: build_summary_def assign_def select_def load_def cell_def comp_def split_def)
  have home: "map_of (summary (build_summary bm g (Some (load ''value'' ms)) c)) ''median_home''
     = Some \<lparr>columns = [''value'', ''homes_per_10k''],
             rows = map (\<lambda>(d, p). (d, [(''value'', p), (''homes_per_10k'', fdiv (Fin 10000) p)])) ms\<rparr>"
    by (cases g; cases c)
       (simp_all add: build_summary_def assign_def select_def load_def cell_def comp_def split_def)
  have cp: "map_of (summary (build_summary bm g m (Some (load ''value'' cs)))) ''cpi''
     = Some \<lparr>columns = [''value'', ''inverted_pct''],
             rows = map (\<lambda>(d, p). (d, [(''value'', p), (''inverted_pct'', fdiv (Fin 1) p)])) cs\<rparr>"
    by (cases g; cases m)
       (simp_all add: build_summary_def assign_def select_def load_def cell_def comp_def split_def)
  have dv: "fdiv (Fin 10000) (Fin x) = (if x = 0 then PInf else Fin (10000 / x))"
    by simp
  from bmac gas home cp dv show ?thesis by simp
qed

text \<open>
  C2 as stated fails: of three points with the prices 2.5, 0 and NaN, the gasoline entry
  keeps all three and the Big Mac entry keeps the point of price zero, with the value
  infinity; the claim has one point left in each.
\<close>

theorem affordability_keeps_zero_price:
  "map_of (summary (build_summary
       (load ''price'' [((2019, 1, 1), Fin 2.5), ((2019, 2, 1), Fin 0), ((2019, 3, 1), NaN)])
       (Some (load ''price'' [((2019, 1, 1), Fin 2.5), ((2019, 2, 1), Fin 0), ((2019, 3, 1), NaN)]))
       None None)) ''gasoline''
     = Some \<lparr>columns = [''price'', ''gallon_per_10k''],
             rows = [((2019, 1, 1), [(''price'', Fin 2.5), (''gallon_per_10k'', Fin 4000)]),
                     ((2019, 2, 1), [(''price'', Fin 0), (''gallon_per_10k'', PInf)]),
                     ((2019, 3, 1), [(''price'', NaN), (''gallon_per_10k'', NaN)])]\<rparr>
   \<and> map_of (summary (build_summary
       (load ''price'' [((2019, 1, 1), Fin 2.5), ((2019, 2, 1), Fin 0), ((2019, 3, 1), NaN)])
       (Some (load ''price'' [((2019, 1, 1), Fin 2.5), ((2019, 2, 1), Fin 0), ((2019, 3, 1), NaN)]))
       None None)) ''bigmac''
     = Some \<lparr>columns = [''price'', ''bigmac_per_10k''],
             rows = [((2019, 1, 1), [(''price'', Fin 2.5), (''bigmac_per_10k'', Fin 4000)]),
                     ((2019, 2, 1), [(''price'', Fin 0), (''bigmac_per_10k'', PInf)])]\<rparr>"
  by (simp add: build_summary_def assign_def select_def dropna_def load_def cell_def)

subsection \<open>What the summary section does to its inputs\<close>

text \<open>
  C9, as the code has it.  Lines 129, 132, 136 and 139 assign a new column to the very
  frame they read: after the summary section the variables \<open>bigmac\<close>, \<open>gasoline\<close>,
  \<open>msp\<close> and \<open>cpi\<close> hold their frames with one column more.  The rows, their order, their
  dates and the column read are as they were: selecting the original column gives the
  original frame back.
\<close>

theorem transform_adds_column:
  "bigmac (build_summary (load ''price'' b) g m c)
     = \<lparr>columns = [''price'', ''bigmac_per_10k''],
        rows = map (\<lambda>(d, p). (d, [(''price'', p), (''bigmac_per_10k'', fdiv (Fin 10000) p)])) b\<rparr>
   \<and> select (bigmac (build_summary (load ''price'' b) g m c)) [''price''] = load ''price'' b
   \<and> gasoline (build_summary bm (Some (load ''price'' gs)) m c)
     = Some \<lparr>columns = [''price'', ''gallon_per_10k''],
             rows = map (\<lambda>(d, p). (d, [(''price'', p), (''gallon_per_10k'', fdiv (Fin 10000) p)])) gs\<rparr>
   \<and> map_option (\<lambda>df. select df [''price'']) (gasoline (build_summary bm (Some (load ''price'' gs)) m c))
     = Some (load ''price'' gs)
   \<and> msp (build_summary bm g (Some (load ''value'' ms)) c)
     = Some \<lparr>columns = [''value'', ''homes_per_10k''],
             rows = map (\<lambda>(d, p). (d, [(''value'', p), (''homes_per_10k'', fdiv (Fin 10000) p)])) ms\<rparr>
   \<and> map_option (\<lambda>df. select df [''value'']) (msp (build_summary bm g (Some (load ''value'' ms)) c))
     = Some (load ''value'' ms)
   \<and> cpi (build_summary bm g m (Some (load ''value'' cs)))
     = Some \<lparr>columns = [''value'', ''inverted_pct''],
             rows = map (\<lambda>(d, p). (d, [(''value'', p), (''inverted_pct'', fdiv (Fin 1) p)])) cs\<rparr>
   \<and> map_option (\<lambda>df. select df [''value'']) (cpi (build_summary bm g m (Some (load ''value'' cs))))
     = Some (load ''value'' cs)"
  by (simp add: build_summary_def assign_def select_def load_def cell_def comp_def split_def Let_def)

text \<open>
  C9 as stated fails: a gasoline frame of one point, with the single column \<open>price\<close>, is
  after the summary section a frame of two columns, not the frame it was.
\<close>

theorem transform_changes_input:
  "gasoline (build_summary (load ''price'' []) (Some (load ''price'' [((2019, 1, 1), Fin 2.5)])) None None)
     = Some \<lparr>columns = [''price'', ''gallon_per_10k''],
             rows = [((2019, 1, 1), [(''price'', Fin 2.5), (''gallon_per_10k'', Fin 4000)])]\<rparr>
   \<and> gasoline (build_summary (load ''price'' []) (Some (load ''price'' [((2019, 1, 1), Fin 2.5)])) None None)
     \<noteq> Some (load ''price'' [((2019, 1, 1), Fin 2.5)])"
  by (simp add: build_summary_def assign_def load_def cell_def Let_def)

subsection \<open>Failures of the chart blocks\<close>

lemma rebase_error: "rebase df s d = Inl e \<Longrightarrow> e = IndexError"
  by (auto simp: rebase_def split: list.splits)

lemma rebase_empty: "rows df = [] \<Longrightarrow> rebase df s d = Inl IndexError"
  by (simp add: rebase_def column_def)

lemma resample_YE_empty: "rows df = [] \<Longrightarrow> rows (resample_YE agg df) = []"
  by (simp add: resample_YE_def)

lemma when_present_error:
  "(\<And>df e. block df = Inl e \<Longrightarrow> e = IndexError) \<Longrightarrow> when_present x block = Inl e \<Longrightarrow> e = IndexError"
  by (auto simp: when_present_def bind_err_def split: option.splits sum.splits)

lemmas block_defs = bigmac_chart_def gasoline_chart_def median_home_chart_def cpi_chart_def
  bm_ann_def gas_ann_def home_ann_def ann_cpi_def

lemma block_errors:
  "when_present x bigmac_chart = Inl e \<Longrightarrow> e = IndexError"
  "when_present x gasoline_chart = Inl e \<Longrightarrow> e = IndexError"
  "when_present x median_home_chart = Inl e \<Longrightarrow> e = IndexError"
  "when_present x cpi_chart = Inl e \<Longrightarrow> e = IndexError"
  "when_present x bm_ann = Inl e \<Longrightarrow> e = IndexError"
  "when_present x gas_ann = Inl e \<Longrightarrow> e = IndexError"
  "when_present x home_ann = Inl e \<Longrightarrow> e = IndexError"
  "when_present x ann_cpi = Inl e \<Longrightarrow> e = IndexError"
  by (erule when_present_error[rotated], simp add: block_defs Let_def, erule rebase_error)+

lemma chart_section_error: "chart_section e = Inl x \<Longrightarrow> x = IndexError"
  unfolding chart_section_def bind_err_def
  by (auto split: sum.splits dest: block_errors)

text \<open>A run that completes has passed every block.\<close>

lemma chart_section_Inr:
  assumes "chart_section e = Inr rep"
  shows "\<exists>p1 p2 p3 p4 c1 c2 c3 c4.
           when_present (map_of (summary e) ''bigmac'') bigmac_chart = Inr p1
         \<and> when_present (map_of (summary e) ''gasoline'') gasoline_chart = Inr p2
         \<and> when_present (map_of (summary e) ''median_home'') median_home_chart = Inr p3
         \<and> when_present (if map_of (summary e) ''cpi'' = None then None else cpi e) cpi_chart = Inr p4
         \<and> when_present (map_of (summary e) ''bigmac'') bm_ann = Inr c1
         \<and> when_present (map_of (summary e) ''gasoline'') gas_ann = Inr c2
         \<and> when_present (map_of (summary e) ''median_home'') home_ann = Inr c3
         \<and> when_present (map_of (summary e) ''cpi'') ann_cpi = Inr c4
         \<and> rep = \<lparr>charts = put ''cpi'' p4 (put ''median_home'' p3 (put ''gasoline'' p2 (put ''bigmac'' p1 []))),
                  combined_data = put ''Inverted CPI'' c4 (put ''Median Home'' c3
                            (put ''Gasoline'' c2 (put ''Big Mac'' c1 [])))\<rparr>"
  using assms unfolding chart_section_def bind_err_def
  by (auto split: sum.splits)

text \<open>The entries of the summary dict, by key.\<close>

lemma summary_bigmac:
  "map_of (summary (build_summary bm g m c)) ''bigmac''
     = Some (dropna (select (assign bm ''bigmac_per_10k'' (\<lambda>r. fdiv (Fin 10000) (cell r ''price'')))
                            [''price'', ''bigmac_per_10k'']))"
  by (cases g; cases m; cases c) (simp_all add: build_summary_def Let_def)

lemma summary_gasoline:
  "map_of (summary (build_summary bm g m c)) ''gasoline''
     = map_option (\<lambda>df. select (assign df ''gallon_per_10k'' (\<lambda>r. fdiv (Fin 10000) (cell r ''price'')))
                                 [''price'', ''gallon_per_10k'']) g"
  by (cases g; cases m; cases c) (simp_all add: build_summary_def Let_def)

lemma summary_median_home:
  "map_of (summary (build_summary bm g m c)) ''median_home''
     = map_option (\<lambda>df. select (assign df ''homes_per_10k'' (\<lambda>r. fdiv (Fin 10000) (cell r ''value'')))
                                 [''value'', ''homes_per_10k'']) m"
  by (cases g; cases m; cases c) (simp_all add: build_summary_def Let_def)

lemma summary_cpi:
  "map_of (summary (build_summary bm g m c)) ''cpi''
     = map_option (\<lambda>df. select (assign df ''inverted_pct'' (\<lambda>r. fdiv (Fin 1) (cell r ''value'')))
                                 [''value'', ''inverted_pct'']) c"
  by (cases g; cases m; cases c) (simp_all add: build_summary_def Let_def)

lemma env_cpi:
  "cpi (build_summary bm g m c)
     = map_option (\<lambda>df. assign df ''inverted_pct'' (\<lambda>r. fdiv (Fin 1) (cell r ''value''))) c"
  by (simp add: build_summary_def Let_def)

lemma late_rows:
  "list_all (\<lambda>(d, p). d < cutoff) raw \<Longrightarrow> filter (\<lambda>r. cutoff \<le> fst r) (rows (load c raw)) = []"
  by (induction raw) (auto simp: load_def)


lemma late_block:
  assumes "list_all (\<lambda>(d, p). d < cutoff) raw"
  shows "gasoline_chart (select (assign (load c raw) k f) cs) = Inl IndexError"
    and "median_home_chart (select (assign (load c raw) k f) cs) = Inl IndexError"
    and "cpi_chart (assign (load c raw) k f) = Inl IndexError"
  using late_rows[OF assms, of c]
  by (simp_all add: block_defs Let_def rebase_empty resample_YE_empty from_cutoff_def select_def assign_def
       filter_map comp_def)

lemma cell_update: "cell (d, AList.update k v al) k' = (if k' = k then v else cell (d, al) k')"
  by (simp add: cell_def update_conv')

lemma late_bigmac:
  assumes "list_all (\<lambda>r. fst r < cutoff \<or> cell r ''price'' = NaN) (rows bm)"
  shows "bigmac_chart (dropna (select (assign bm ''bigmac_per_10k'' f) [''price'', ''bigmac_per_10k''])) = Inl IndexError"
proof -
  have "filter (\<lambda>r. cutoff \<le> fst r)
          (filter (\<lambda>r. list_all (\<lambda>c. cell r c \<noteq> NaN) [''price'', ''bigmac_per_10k''])
             (map (\<lambda>r. (fst r, map (\<lambda>c. (c, cell r c)) [''price'', ''bigmac_per_10k'']))
                (map (\<lambda>r. (fst r, AList.update ''bigmac_per_10k'' (f r) (snd r))) rs))) = []"
    if "list_all (\<lambda>r. fst r < cutoff \<or> cell r ''price'' = NaN) rs" for rs
    using that
  proof (induction rs)
    case Nil
    show ?case by simp
  next
    case (Cons r rs)
    then have "fst r < cutoff \<or> cell r ''price'' = NaN" by simp
    moreover have "cell (fst r, AList.update ''bigmac_per_10k'' (f r) (snd r)) ''price'' = cell r ''price''"
      by (simp add: cell_def update_conv')
    ultimately show ?case using Cons by (auto simp: cell_def)
  qed
  from this[OF assms] show ?thesis
    by (simp add: bigmac_chart_def rebase_empty from_cutoff_def dropna_def select_def assign_def)
qed

text \<open>
  C3, as the code has it.  The script has no exception of its own and catches nothing in
  the chart blocks.  When a series that was loaded has no point on or after the cutoff
  (for the Big Mac frame: no such point with a price), its block reads \<open>iloc[0]\<close> of an
  empty column, the IndexError ends the whole run, and no chart and no combined table is
  produced.  A baseline of exactly zero raises nothing: every value is divided by zero
  under float division, which gives NaN for 0/0 and an infinity otherwise, and the series
  stays in the output.
\<close>

theorem rebase_failures:
  "(bigmac_combined (map_option (load ''price'') (historical_csv src))
                    (map_option (load ''price'') (current_csv src)) = Inr bm
     \<and> ((\<exists>g. gasoline_csv src = Some g \<and> list_all (\<lambda>(d, p). d < cutoff) g)
      \<or> (\<exists>m. msp_csv src = Some m \<and> list_all (\<lambda>(d, p). d < cutoff) m)
      \<or> (\<exists>c. cpi_csv src = Some c \<and> list_all (\<lambda>(d, p). d < cutoff) c)
      \<or> list_all (\<lambda>r. fst r < cutoff \<or> cell r ''price'' = NaN) (rows bm))
    \<longrightarrow> main src = Inl IndexError)
   \<and> (column df s = Fin 0 # vs
    \<longrightarrow> rebase df s d = Inr (assign df d (\<lambda>r. fmul (fdiv (cell r s) (Fin 0)) (Fin 100))))
   \<and> fdiv (Fin x) (Fin 0) = (if x = 0 then NaN else if 0 < x then PInf else NInf)"
proof (intro conjI impI)
  assume a: "bigmac_combined (map_option (load ''price'') (historical_csv src))
                    (map_option (load ''price'') (current_csv src)) = Inr bm
     \<and> ((\<exists>g. gasoline_csv src = Some g \<and> list_all (\<lambda>(d, p). d < cutoff) g)
      \<or> (\<exists>m. msp_csv src = Some m \<and> list_all (\<lambda>(d, p). d < cutoff) m)
      \<or> (\<exists>c. cpi_csv src = Some c \<and> list_all (\<lambda>(d, p). d < cutoff) c)
      \<or> list_all (\<lambda>r. fst r < cutoff \<or> cell r ''price'' = NaN) (rows bm))"
  define e where "e = build_summary bm (map_option (load ''price'') (gasoline_csv src))
                                     (map_option (load ''value'') (msp_csv src))
                                     (map_option (load ''value'') (cpi_csv src))"
  from a have m: "main src = chart_section e"
    by (simp add: main_def bind_err_def e_def)
  from a consider
      (gas) g where "gasoline_csv src = Some g" "list_all (\<lambda>(d, p). d < cutoff) g"
    | (home) m where "msp_csv src = Some m" "list_all (\<lambda>(d, p). d < cutoff) m"
    | (cpi) c where "cpi_csv src = Some c" "list_all (\<lambda>(d, p). d < cutoff) c"
    | (mac) "list_all (\<lambda>r. fst r < cutoff \<or> cell r ''price'' = NaN) (rows bm)"
    by blast
  then have stuck: "chart_section e \<noteq> Inr rep" for rep
  proof cases
    case gas
    have "when_present (map_of (summary e) ''gasoline'') gasoline_chart = Inl IndexError"
      unfolding e_def summary_gasoline using gas
      by (simp add: when_present_def bind_err_def late_block)
    then show ?thesis using chart_section_Inr[of e rep] by auto
  next
    case home
    have "when_present (map_of (summary e) ''median_home'') median_home_chart = Inl IndexError"
      unfolding e_def summary_median_home using home
      by (simp add: when_present_def bind_err_def late_block)
    then show ?thesis using chart_section_Inr[of e rep] by auto
  next
    case cpi
    have "when_present (if map_of (summary e) ''cpi'' = None then None else env.cpi e) cpi_chart
            = Inl IndexError"
      unfolding e_def summary_cpi env_cpi using cpi
      by (simp add: when_present_def bind_err_def late_block)
    then show ?thesis using chart_section_Inr[of e rep] by auto
  next
    case mac
    have "when_present (map_of (summary e) ''bigmac'') bigmac_chart = Inl IndexError"
      unfolding e_def summary_bigmac using mac
      by (simp add: when_present_def bind_err_def late_bigmac)
    then show ?thesis using chart_section_Inr[of e rep] by auto
  qed
  show "main src = Inl IndexError"
  proof (cases "chart_section e")
    case (Inl x)
    with chart_section_error[of e x] m show ?thesis by simp
  next
    case (Inr rep)
    with stuck[of rep] show ?thesis by blast
  qed
next
  assume "column df s = Fin 0 # vs"
  then show "rebase df s d = Inr (assign df d (\<lambda>r. fmul (fdiv (cell r s) (Fin 0)) (Fin 100)))"
    by (simp add: rebase_def)
next
  show "fdiv (Fin x) (Fin 0) = (if x = 0 then NaN else if 0 < x then PInf else NInf)"
    by simp
qed

text \<open>
  An instance: gasoline loaded with its only point in 1994, the Big Mac frame with a
  point in 1996; and a frame whose first value is zero.
\<close>

theorem rebase_failures_witness:
  "bigmac_combined (map_option (load ''price'') (historical_csv
       \<lparr>cpi_csv = None, msp_csv = None, gasoline_csv = Some [((1994, 6, 1), Fin 1.1)],
        historical_csv = None, current_csv = Some [((1996, 1, 1), Fin 2.36)]\<rparr>))
     (map_option (load ''price'') (current_csv 
       \<lparr>cpi_csv = None, msp_csv = None, gasoline_csv = Some [((1994, 6, 1), Fin 1.1)],
        historical_csv = None, current_csv = Some [((1996, 1, 1), Fin 2.36)]\<rparr>))
     = Inr (load ''price'' [((1996, 1, 1), Fin 2.36)])
   \<and> list_all (\<lambda>(d, p). d < cutoff) [((1994, 6, 1), Fin 1.1)]
   \<and> main \<lparr>cpi_csv = None, msp_csv = None, gasoline_csv = Some [((1994, 6, 1), Fin 1.1)],
        historical_csv = None, current_csv = Some [((1996, 1, 1), Fin 2.36)]\<rparr> = Inl IndexError
   \<and> column (load ''v'' [((1995, 12, 31), Fin 0), ((1996, 12, 31), Fin 5)]) ''v'' = [Fin 0, Fin 5]
   \<and> rebase (load ''v'' [((1995, 12, 31), Fin 0), ((1996, 12, 31), Fin 5)]) ''v'' ''pct''
       = Inr \<lparr>columns = [''v'', ''pct''],
              rows = [((1995, 12, 31), [(''v'', Fin 0), (''pct'', NaN)]),
                      ((1996, 12, 31), [(''v'', Fin 5), (''pct'', PInf)])]\<rparr>"
proof -
  let ?src = "\<lparr>cpi_csv = None, msp_csv = None, gasoline_csv = Some [((1994, 6, 1), Fin 1.1)],
        historical_csv = None, current_csv = Some [((1996, 1, 1), Fin 2.36)]\<rparr>"
  let ?df = "load ''v'' [((1995, 12, 31), Fin 0), ((1996, 12, 31), Fin 5)]"
  have h1: "bigmac_combined (map_option (load ''price'') (historical_csv ?src))
              (map_option (load ''price'') (current_csv ?src)) = Inr (load ''price'' [((1996, 1, 1), Fin 2.36)])"
    by (simp add: bigmac_combined_def load_def sort_values_def drop_duplicates_def)
  have h2: "list_all (\<lambda>(d, p). d < cutoff) [((1994, 6, 1), Fin 1.1)]"
    by (simp add: cutoff_def)
  have h3: "column ?df ''v'' = Fin 0 # [Fin 5]"
    by (simp add: column_def load_def cell_def)
  note t = rebase_failures[of ?src "load ''price'' [((1996, 1, 1), Fin 2.36)]" ?df "''v''" "[Fin 5]" "''pct''" 0]
  from t h1 h2 have r1: "main ?src = Inl IndexError" by simp
  from t h3 have r2: "rebase ?df ''v'' ''pct'' = Inr (assign ?df ''pct'' (\<lambda>r. fmul (fdiv (cell r ''v'') (Fin 0)) (Fin 100)))"
    by blast
  have r3: "assign ?df ''pct'' (\<lambda>r. fmul (fdiv (cell r ''v'') (Fin 0)) (Fin 100))
      = \<lparr>columns = [''v'', ''pct''],
              rows = [((1995, 12, 31), [(''v'', Fin 0), (''pct'', NaN)]),
                      ((1996, 12, 31), [(''v'', Fin 5), (''pct'', PInf)])]\<rparr>"
    by (simp add: assign_def load_def cell_def)
  from h1 h2 r1 h3 r2 r3 show ?thesis by simp
qed

text \<open>
  C3 as stated fails: with gasoline loaded and all of it before the cutoff, the run does
  not go on without gasoline, it ends in IndexError; and rebasing on a baseline of zero
  returns a frame, with NaN and infinity in the percentage column.
\<close>

theorem rebase_failure_is_fatal:
  "main \<lparr>cpi_csv = None, msp_csv = None, gasoline_csv = Some [((1994, 6, 1), Fin 1.1)],
          historical_csv = None, current_csv = Some [((1996, 1, 1), Fin 2.36)]\<rparr> = Inl IndexError
   \<and> rebase \<lparr>columns = [''v''], rows = [((1995, 12, 31), [(''v'', Fin 0)]), ((1996, 12, 31), [(''v'', Fin 5)])]\<rparr>
        ''v'' ''pct''
       = Inr \<lparr>columns = [''v'', ''pct''],
              rows = [((1995, 12, 31), [(''v'', Fin 0), (''pct'', NaN)]),
                      ((1996, 12, 31), [(''v'', Fin 5), (''pct'', PInf)])]\<rparr>"
  by (simp add: main_def bind_err_def bigmac_combined_def load_def sort_values_def drop_duplicates_def
        build_summary_def Let_def chart_section_def when_present_def block_defs rebase_def column_def
        from_cutoff_def cutoff_def resample_YE_def assign_def select_def dropna_def cell_def)

subsection \<open>Annual resampling\<close>

lemma year_of_mono: "d \<le> d' \<Longrightarrow> year_of d \<le> year_of d'"
  by (cases d; cases d') (auto simp: year_of_def)

lemma year_end_inj: "year_end y = year_end y' \<longleftrightarrow> y = y'"
  by (simp add: year_end_def)

text \<open>The first and the last row in date order carry the least and the greatest year.\<close>

lemma first_year:
  assumes "rs \<noteq> []"
  shows "year_of (fst (hd (sort_key fst rs))) = Min (year_of ` fst ` set rs)"
proof -
  let ?s = "sort_key fst rs"
  from assms have ne: "?s \<noteq> []" by (metis length_0_conv length_sort)
  then obtain r t where s: "?s = r # t" by (cases ?s) auto
  have "sorted (map fst ?s)" by simp
  then have "\<forall>x\<in>set ?s. fst r \<le> fst x" unfolding s by auto
  then have le: "fst r \<le> fst x" if "x \<in> set rs" for x using that by simp
  have mem: "r \<in> set rs" using s by (metis list.set_intros(1) set_sort)
  show ?thesis
  proof (rule Min_eqI[symmetric])
    show "finite (year_of ` fst ` set rs)" by simp
    show "year_of (fst (hd ?s)) \<in> year_of ` fst ` set rs" using mem s by simp
    fix y assume "y \<in> year_of ` fst ` set rs"
    then obtain x where "x \<in> set rs" "y = year_of (fst x)" by auto
    with le[of x] show "year_of (fst (hd ?s)) \<le> y" unfolding s by (simp add: year_of_mono)
  qed
qed

lemma last_year:
  assumes "rs \<noteq> []"
  shows "year_of (fst (last (sort_key fst rs))) = Max (year_of ` fst ` set rs)"
proof -
  let ?s = "sort_key fst rs"
  from assms have ne: "?s \<noteq> []" by (metis length_0_conv length_sort)
  then obtain t r where s: "?s = t @ [r]" by (cases ?s rule: rev_cases) auto
  have "sorted (map fst ?s)" by simp
  then have "\<forall>x\<in>set ?s. fst x \<le> fst r" unfolding s by (auto simp: sorted_append)
  then have le: "fst x \<le> fst r" if "x \<in> set rs" for x using that by simp
  have mem: "r \<in> set rs" using s by (metis in_set_conv_decomp set_sort)
  show ?thesis
  proof (rule Max_eqI[symmetric])
    show "finite (year_of ` fst ` set rs)" by simp
    show "year_of (fst (last ?s)) \<in> year_of ` fst ` set rs" using mem s by simp
    fix y assume "y \<in> year_of ` fst ` set rs"
    then obtain x where "x \<in> set rs" "y = year_of (fst x)" by auto
    with le[of x] show "y \<le> year_of (fst (last ?s))" unfolding s by (simp add: year_of_mono)
  qed
qed

lemma resample_YE_rows:
  "rows (resample_YE agg df) =
     (if rows df = [] then []
      else map (\<lambda>y. (year_end y,
                  map (\<lambda>c. (c, agg (map (\<lambda>r. cell r c)
                                  (filter (\<lambda>r. year_of (fst r) = y) (sort_key fst (rows df))))))
                      (columns df)))
               [Min (year_of ` fst ` set (rows df)) .. Max (year_of ` fst ` set (rows df))])"
proof (cases "rows df = []")
  case True
  then show ?thesis by (simp add: resample_YE_def)
next
  case False
  then have ne: "sort_key fst (rows df) \<noteq> []" by (metis length_0_conv length_sort)
  show ?thesis
    using False ne by (simp add: resample_YE_def Let_def first_year last_year)
qed

text \<open>In exact arithmetic the mean does not depend on the order of the values.\<close>

lemma fadd_right_commute: "fadd (fadd a x) y = fadd (fadd a y) x"
  by (cases a; cases x; cases y) simp_all

lemma fmean_mset:
  assumes "mset xs = mset ys"
  shows "fmean xs = fmean ys"
proof -
  let ?f = "filter (\<lambda>v. v \<noteq> NaN)"
  from assms have m: "mset (?f xs) = mset (?f ys)" by simp
  then have len: "length (?f xs) = length (?f ys)" by (metis size_mset)
  from m have emp: "?f xs = [] \<longleftrightarrow> ?f ys = []" by (metis mset_zero_iff)
  have "fold (\<lambda>x a. fadd a x) (?f xs) = fold (\<lambda>x a. fadd a x) (?f ys)"
    by (rule fold_multiset_equiv[OF _ m]) (simp add: fun_eq_iff fadd_right_commute)
  then have "foldl fadd (Fin 0) (?f xs) = foldl fadd (Fin 0) (?f ys)"
    by (simp add: foldl_conv_fold)
  with len emp show ?thesis by (simp add: fmean_def Let_def)
qed

lemma foldl_fadd_Fin: "foldl fadd (Fin a) (map Fin xs) = Fin (a + sum_list xs)"
  by (induction xs arbitrary: a) (simp_all add: add.assoc)

lemma fmean_Fin: "fmean (map Fin (x # xs)) = Fin (sum_list (x # xs) / real (length (x # xs)))"
proof -
  have "filter (\<lambda>v. v \<noteq> NaN) (map Fin (x # xs)) = map Fin (x # xs)"
    by (induction xs) auto
  then show ?thesis
    unfolding fmean_def Let_def using foldl_fadd_Fin[of 0 "x # xs"] by simp
qed

text \<open>
  C4, as the code has it.  The annual mean of a non-empty frame has one row for every
  calendar year from the year of its earliest date to the year of its latest, dated the
  last day of that year.  Each cell is the mean of the values of that column present in
  the rows of that year: the arithmetic mean \<open>(v1 + ... + vn) / n\<close> when they are finite
  values, and NaN when the year has no row, so a year inside the range with no input
  point does get an output row, filled with NaN.  An empty frame gives an empty frame.
\<close>

theorem resample_mean_rows:
  "rows (resample_YE fmean df) =
     (if rows df = [] then []
      else map (\<lambda>y. (year_end y,
                  map (\<lambda>c. (c, fmean (map (\<lambda>r. cell r c) (filter (\<lambda>r. year_of (fst r) = y) (rows df)))))
                      (columns df)))
               [Min (year_of ` fst ` set (rows df)) .. Max (year_of ` fst ` set (rows df))])
   \<and> fmean [] = NaN
   \<and> fmean (map Fin (x # xs)) = Fin (sum_list (x # xs) / real (length (x # xs)))"
proof -
  have "fmean (map (\<lambda>r. cell r c) (filter (\<lambda>r. year_of (fst r) = y) (sort_key fst (rows df))))
      = fmean (map (\<lambda>r. cell r c) (filter (\<lambda>r. year_of (fst r) = y) (rows df)))" for c y
    by (rule fmean_mset) simp
  then have "rows (resample_YE fmean df) =
     (if rows df = [] then []
      else map (\<lambda>y. (year_end y,
                  map (\<lambda>c. (c, fmean (map (\<lambda>r. cell r c) (filter (\<lambda>r. year_of (fst r) = y) (rows df)))))
                      (columns df)))
               [Min (year_of ` fst ` set (rows df)) .. Max (year_of ` fst ` set (rows df))])"
    unfolding resample_YE_rows by simp
  moreover have "fmean [] = NaN" by (simp add: fmean_def)
  ultimately show ?thesis using fmean_Fin by blast
qed

text \<open>
  C4 as stated fails: with gasoline points in 1995 and 1997 only, the annual frame of the
  gasoline chart has a row for 1996, every cell of it NaN.
\<close>

theorem resample_mean_fills_gap_year:
  "gasoline_chart \<lparr>columns = [''price'', ''gallon_per_10k''],
                   rows = [((1995, 3, 1), [(''price'', Fin 2), (''gallon_per_10k'', Fin 5000)]),
                           ((1997, 3, 1), [(''price'', Fin 4), (''gallon_per_10k'', Fin 2500)])]\<rparr>
     = Inr \<lparr>columns = [''price'', ''gallon_per_10k'', ''gallon_pct''],
            rows = [((1995, 12, 31), [(''price'', Fin 2), (''gallon_per_10k'', Fin 5000), (''gallon_pct'', Fin 100)]),
                    ((1996, 12, 31), [(''price'', NaN), (''gallon_per_10k'', NaN), (''gallon_pct'', NaN)]),
                    ((1997, 12, 31), [(''price'', Fin 4), (''gallon_per_10k'', Fin 2500), (''gallon_pct'', Fin 50)])]\<rparr>"
  by (simp add: gasoline_chart_def rebase_def column_def from_cutoff_def cutoff_def resample_YE_def
        assign_def cell_def year_of_def year_end_def fmean_def Let_def)


lemma flast_snoc: "flast (vs @ [v]) = (if v = NaN then flast vs else v)"
  by (simp add: flast_def)

text \<open>
  C5, as the code has it.  The annual \<open>last\<close> of a non-empty frame has the same rows as
  the annual mean: one per calendar year from the first to the last, dated the last day
  of that year, not the date of a contributing point.  Each cell is the last value
  present of that column among the rows of the year taken in date order: the value of
  the chronologically last point unless that value is missing, and NaN when the year has
  no value present.
\<close>

theorem resample_last_rows:
  "rows (resample_YE flast df) =
     (if rows df = [] then []
      else map (\<lambda>y. (year_end y,
                  map (\<lambda>c. (c, flast (map (\<lambda>r. cell r c)
                                  (filter (\<lambda>r. year_of (fst r) = y) (sort_key fst (rows df))))))
                      (columns df)))
               [Min (year_of ` fst ` set (rows df)) .. Max (year_of ` fst ` set (rows df))])
   \<and> flast [] = NaN
   \<and> flast (vs @ [v]) = (if v = NaN then flast vs else v)"
proof -
  have "flast [] = NaN" by (simp add: flast_def)
  with resample_YE_rows[of flast df] flast_snoc[of vs v] show ?thesis by blast
qed

text \<open>
  C5 as stated fails: with median home points on 1995-01-01 and 1995-10-01, the output
  point for 1995 is dated 1995-12-31, not 1995-10-01.
\<close>

theorem resample_last_date_is_year_end:
  "median_home_chart \<lparr>columns = [''value'', ''homes_per_10k''],
                      rows = [((1995, 1, 1), [(''value'', Fin 100000), (''homes_per_10k'', Fin 0.1)]),
                              ((1995, 10, 1), [(''value'', Fin 125000), (''homes_per_10k'', Fin 0.08)])]\<rparr>
     = Inr \<lparr>columns = [''value'', ''homes_per_10k'', ''homes_pct''],
            rows = [((1995, 12, 31),
                     [(''value'', Fin 125000), (''homes_per_10k'', Fin 0.08), (''homes_pct'', Fin 100)])]\<rparr>
   \<and> (1995, 12, 31) \<noteq> ((1995, 10, 1) :: date)"
  by (simp add: median_home_chart_def rebase_def column_def from_cutoff_def cutoff_def resample_YE_def
        assign_def cell_def year_of_def year_end_def flast_def Let_def)

subsection \<open>Rebasing\<close>

lemma resample_YE_distinct: "distinct (map fst (rows (resample_YE agg df)))"
proof -
  have "map fst (rows (resample_YE agg df)) =
          (if rows df = [] then []
           else map year_end [Min (year_of ` fst ` set (rows df)) .. Max (year_of ` fst ` set (rows df))])"
    by (simp add: resample_YE_rows comp_def)
  moreover have "distinct (map year_end [lo..hi])" for lo hi
    by (simp add: distinct_map inj_on_def year_end_def)
  ultimately show ?thesis by simp
qed

lemma bigmac_combined_distinct:
  "bigmac_combined h c = Inr bm \<Longrightarrow> distinct (map fst (rows bm))"
  using drop_dups_distinct[of "[]"]
  by (auto simp: bigmac_combined_def sort_values_def drop_duplicates_def distinct_map
           split: option.splits)

lemma summary_bigmac_distinct:
  assumes "distinct (map fst (rows bm))"
  shows "distinct (map fst (rows (from_cutoff (dropna (select (assign bm k f) cs)))))"
proof -
  have "map fst (rows (select (assign bm k f) cs)) = map fst (rows bm)"
    by (simp add: select_def assign_def comp_def)
  with assms have "distinct (map fst (rows (select (assign bm k f) cs)))" by simp
  then show ?thesis
    by (simp add: from_cutoff_def dropna_def distinct_map_filter)
qed

text \<open>
  The idiom on a frame of distinct dates: when the first value is finite and not zero,
  the only row with the first row's date is the first row, and it gets exactly 100.
\<close>

lemma rebase_baseline:
  assumes run: "rebase df s d = Inr out"
    and dist: "distinct (map fst (rows df))"
    and sd: "s \<noteq> d"
    and first: "rows out = r0 # rs"
    and base: "cell r0 s = Fin b" "b \<noteq> 0"
    and r: "r \<in> set (rows out)" "fst r = fst r0"
  shows "cell r d = Fin 100"
proof -
  from run obtain q0 qs where df: "rows df = q0 # qs"
    by (cases "rows df") (auto simp: rebase_def column_def)
  define f where "f = (\<lambda>q. fmul (fdiv (cell q s) (cell q0 s)) (Fin 100))"
  define g where "g = (\<lambda>q. (fst q, AList.update d (f q) (snd q)))"
  from run df have out: "rows out = map g (rows df)"
    by (auto simp: rebase_def column_def assign_def f_def g_def)
  have cell_d: "cell (g q) d = f q" for q
    by (simp add: g_def cell_update)
  have cell_s: "cell (g q) s = cell q s" for q
    using sd by (cases q) (simp add: g_def cell_update)
  from out first df have r0: "r0 = g q0" by simp
  with base cell_s have init: "cell q0 s = Fin b" by simp
  from r out obtain q where q: "q \<in> set (rows df)" "r = g q" by auto
  with r r0 have "fst q = fst q0" by (simp add: g_def)
  moreover have "q0 \<in> set (rows df)" using df by simp
  ultimately have "q = q0"
    using dist q(1) by (meson distinct_map inj_onD)
  with q cell_d have "cell r d = f q0" by simp
  also have "\<dots> = Fin 100" using init base by (simp add: f_def)
  finally show ?thesis .
qed


lemma when_present_Some:
  "when_present x block = Inr (Some out) \<Longrightarrow> \<exists>df. x = Some df \<and> block df = Inr out"
  by (auto simp: when_present_def bind_err_def split: option.splits sum.splits)

lemma map_of_put:
  "map_of (put k e d) = (case e of None \<Rightarrow> map_of d | Some v \<Rightarrow> (map_of d)(k \<mapsto> v))"
  by (simp add: put_def update_conv' split: option.splits)

lemma main_Inr:
  assumes "main src = Inr rep"
  shows "\<exists>bm. bigmac_combined (map_option (load ''price'') (historical_csv src))
                               (map_option (load ''price'') (current_csv src)) = Inr bm
            \<and> chart_section (build_summary bm (map_option (load ''price'') (gasoline_csv src))
                                     (map_option (load ''value'') (msp_csv src))
                                     (map_option (load ''value'') (cpi_csv src))) = Inr rep"
  using assms by (auto simp: main_def bind_err_def split: sum.splits)

text \<open>
  C6, as the code has it.  In a run that completes, take any of the four charts or any
  of the four entries of the combined table, with the column it rebases (\<open>s\<close>) and the
  percentage column it writes (\<open>d\<close>).  Its first row is the baseline: the first point
  on or after the cutoff.  When the baseline value is a finite number other than zero,
  every row of the output dated as the baseline row has exactly 100 in the percentage
  column.
\<close>

theorem baseline_is_100:
  assumes run: "main src = Inr rep"
    and entry:
      "(k, s, d) \<in> set [(''bigmac'', ''bigmac_per_10k'', ''bigmac_pct''),
                        (''gasoline'', ''gallon_per_10k'', ''gallon_pct''),
                        (''median_home'', ''homes_per_10k'', ''homes_pct''),
                        (''cpi'', ''inverted'', ''inverted_pct'')]
         \<and> map_of (charts rep) k = Some out
       \<or> (k, s, d) \<in> set [(''Big Mac'', ''bigmac_per_10k'', ''pct''),
                          (''Gasoline'', ''gallon_per_10k'', ''pct''),
                          (''Median Home'', ''homes_per_10k'', ''pct''),
                          (''Inverted CPI'', ''inverted_pct'', ''pct'')]
         \<and> map_of (combined_data rep) k = Some out"
    and first: "rows out = r0 # rs"
    and base: "cell r0 s = Fin b" "b \<noteq> 0"
    and r: "r \<in> set (rows out)" "fst r = fst r0"
  shows "cell r d = Fin 100"
proof -
  from main_Inr[OF run] obtain bm e where
      bm: "bigmac_combined (map_option (load ''price'') (historical_csv src))
                           (map_option (load ''price'') (current_csv src)) = Inr bm"
    and e: "e = build_summary bm (map_option (load ''price'') (gasoline_csv src))
                                 (map_option (load ''value'') (msp_csv src))
                                 (map_option (load ''value'') (cpi_csv src))"
    and cs: "chart_section e = Inr rep"
    by blast
  from chart_section_Inr[OF cs] obtain p1 p2 p3 p4 c1 c2 c3 c4 where
      p1: "when_present (map_of (summary e) ''bigmac'') bigmac_chart = Inr p1"
    and p2: "when_present (map_of (summary e) ''gasoline'') gasoline_chart = Inr p2"
    and p3: "when_present (map_of (summary e) ''median_home'') median_home_chart = Inr p3"
    and p4: "when_present (if map_of (summary e) ''cpi'' = None then None else cpi e) cpi_chart = Inr p4"
    and c1: "when_present (map_of (summary e) ''bigmac'') bm_ann = Inr c1"
    and c2: "when_present (map_of (summary e) ''gasoline'') gas_ann = Inr c2"
    and c3: "when_present (map_of (summary e) ''median_home'') home_ann = Inr c3"
    and c4: "when_present (map_of (summary e) ''cpi'') ann_cpi = Inr c4"
    and rep: "rep = \<lparr>charts = put ''cpi'' p4 (put ''median_home'' p3 (put ''gasoline'' p2 (put ''bigmac'' p1 []))),
                     combined_data = put ''Inverted CPI'' c4 (put ''Median Home'' c3
                            (put ''Gasoline'' c2 (put ''Big Mac'' c1 [])))\<rparr>"
    by blast
  have base100: "cell r d = Fin 100"
    if "rebase X s d = Inr out" "distinct (map fst (rows X))" "s \<noteq> d" for X
    using rebase_baseline[OF that first base r] .
  have annual: "cell r d = Fin 100"
    if "rebase (resample_YE agg X) s d = Inr out" "s \<noteq> d" for agg X
    using base100[OF that(1) resample_YE_distinct that(2)] .
  from entry[unfolded list.set insert_iff empty_iff prod.inject] show ?thesis
  proof (elim disjE conjE FalseE, goal_cases)
    case 1
    note a1 = this
    then have "p1 = Some out"
      unfolding rep by (simp add: map_of_put split: option.splits)
    with p1 have "bigmac_chart (dropna (select (assign bm ''bigmac_per_10k''
                     (\<lambda>r. fdiv (Fin 10000) (cell r ''price''))) [''price'', ''bigmac_per_10k''])) = Inr out"
      unfolding e summary_bigmac by (auto dest: when_present_Some)
    then show ?thesis
      unfolding bigmac_chart_def using a1
      by (intro base100[OF _ summary_bigmac_distinct[OF bigmac_combined_distinct[OF bm]]]) simp_all
  next
    case 2
    note a2 = this
    then have "p2 = Some out"
      unfolding rep by (simp add: map_of_put split: option.splits)
    with p2 obtain df where "gasoline_chart df = Inr out"
      by (auto dest: when_present_Some)
    then show ?thesis
      unfolding gasoline_chart_def using a2 by (intro annual) simp_all
  next
    case 3
    note a3 = this
    then have "p3 = Some out"
      unfolding rep by (simp add: map_of_put split: option.splits)
    with p3 obtain df where "median_home_chart df = Inr out"
      by (auto dest: when_present_Some)
    then show ?thesis
      unfolding median_home_chart_def using a3 by (intro annual) simp_all
  next
    case 4
    note a4 = this
    then have "p4 = Some out"
      unfolding rep by (simp add: map_of_put split: option.splits)
    with p4 obtain df where "cpi_chart df = Inr out"
      by (auto dest: when_present_Some)
    then show ?thesis
      unfolding cpi_chart_def Let_def using a4 by (intro annual) simp_all
  next
    case 5
    note b1 = this
    then have "c1 = Some out"
      unfolding rep by (simp add: map_of_put split: option.splits)
    with c1 obtain df where "bm_ann df = Inr out"
      by (auto dest: when_present_Some)
    then show ?thesis
      unfolding bm_ann_def using b1 by (intro annual) simp_all
  next
    case 6
    note b2 = this
    then have "c2 = Some out"
      unfolding rep by (simp add: map_of_put split: option.splits)
    with c2 obtain df where "gas_ann df = Inr out"
      by (auto dest: when_present_Some)
    then show ?thesis
      unfolding gas_ann_def using b2 by (intro annual) simp_all
  next
    case 7
    note b3 = this
    then have "c3 = Some out"
      unfolding rep by (simp add: map_of_put split: option.splits)
    with c3 obtain df where "home_ann df = Inr out"
      by (auto dest: when_present_Some)
    then show ?thesis
      unfolding home_ann_def using b3 by (intro annual) simp_all
  next
    case 8
    note b4 = this
    then have "c4 = Some out"
      unfolding rep by (simp add: map_of_put split: option.splits)
    with c4 obtain df where "ann_cpi df = Inr out"
      by (auto dest: when_present_Some)
    then show ?thesis
      unfolding ann_cpi_def using b4 by (intro annual) simp_all
  qed
qed


text \<open>An instance: a run on two Big Mac points, and its Big Mac chart.\<close>

theorem baseline_is_100_witness:
  "main \<lparr>cpi_csv = None, msp_csv = None, gasoline_csv = None, historical_csv = None,
         current_csv = Some [((1995, 1, 1), Fin 2), ((1996, 1, 1), Fin 4)]\<rparr>
     = Inr \<lparr>charts = [(''bigmac'',
              \<lparr>columns = [''price'', ''bigmac_per_10k'', ''bigmac_pct''],
               rows = [((1995, 1, 1), [(''price'', Fin 2), (''bigmac_per_10k'', Fin 5000), (''bigmac_pct'', Fin 100)]),
                       ((1996, 1, 1), [(''price'', Fin 4), (''bigmac_per_10k'', Fin 2500), (''bigmac_pct'', Fin 50)])]\<rparr>)],
            combined_data = [(''Big Mac'',
              \<lparr>columns = [''price'', ''bigmac_per_10k'', ''pct''],
               rows = [((1995, 12, 31), [(''price'', Fin 2), (''bigmac_per_10k'', Fin 5000), (''pct'', Fin 100)]),
                       ((1996, 12, 31), [(''price'', Fin 4), (''bigmac_per_10k'', Fin 2500), (''pct'', Fin 50)])]\<rparr>)]\<rparr>
   \<and> cell ((1995, 1, 1), [(''price'', Fin 2), (''bigmac_per_10k'', Fin 5000), (''bigmac_pct'', Fin 100)])
          ''bigmac_per_10k'' = Fin 5000
   \<and> (5000 :: real) \<noteq> 0
   \<and> cell ((1995, 1, 1), [(''price'', Fin 2), (''bigmac_per_10k'', Fin 5000), (''bigmac_pct'', Fin 100)])
          ''bigmac_pct'' = Fin 100"
proof -
  let ?src = "\<lparr>cpi_csv = None, msp_csv = None, gasoline_csv = None, historical_csv = None,
         current_csv = Some [((1995, 1, 1), Fin 2), ((1996, 1, 1), Fin 4)]\<rparr>"
  let ?r0 = "((1995, 1, 1), [(''price'', Fin 2), (''bigmac_per_10k'', Fin 5000), (''bigmac_pct'', Fin 100)])"
  let ?r1 = "((1996, 1, 1), [(''price'', Fin 4), (''bigmac_per_10k'', Fin 2500), (''bigmac_pct'', Fin 50)])"
  let ?out = "\<lparr>columns = [''price'', ''bigmac_per_10k'', ''bigmac_pct''], rows = [?r0, ?r1]\<rparr>"
  let ?rep = "\<lparr>charts = [(''bigmac'', ?out)],
            combined_data = [(''Big Mac'',
              \<lparr>columns = [''price'', ''bigmac_per_10k'', ''pct''],
               rows = [((1995, 12, 31), [(''price'', Fin 2), (''bigmac_per_10k'', Fin 5000), (''pct'', Fin 100)]),
                       ((1996, 12, 31), [(''price'', Fin 4), (''bigmac_per_10k'', Fin 2500), (''pct'', Fin 50)])]\<rparr>)]\<rparr>"
  have run: "main ?src = Inr ?rep"
    by (simp add: main_def bind_err_def bigmac_combined_def load_def sort_values_def drop_duplicates_def
          build_summary_def Let_def chart_section_def when_present_def block_defs rebase_def column_def
          from_cutoff_def cutoff_def resample_YE_def assign_def select_def dropna_def cell_def
          year_of_def year_end_def fmean_def put_def)
  have entry:
      "(''bigmac'', ''bigmac_per_10k'', ''bigmac_pct'') \<in> set [(''bigmac'', ''bigmac_per_10k'', ''bigmac_pct''),
                        (''gasoline'', ''gallon_per_10k'', ''gallon_pct''),
                        (''median_home'', ''homes_per_10k'', ''homes_pct''),
                        (''cpi'', ''inverted'', ''inverted_pct'')]
         \<and> map_of (charts ?rep) ''bigmac'' = Some ?out
       \<or> (''bigmac'', ''bigmac_per_10k'', ''bigmac_pct'') \<in> set [(''Big Mac'', ''bigmac_per_10k'', ''pct''),
                          (''Gasoline'', ''gallon_per_10k'', ''pct''),
                          (''Median Home'', ''homes_per_10k'', ''pct''),
                          (''Inverted CPI'', ''inverted_pct'', ''pct'')]
         \<and> map_of (combined_data ?rep) ''bigmac'' = Some ?out"
    by simp
  have first: "rows ?out = ?r0 # [?r1]" by simp
  have base: "cell ?r0 ''bigmac_per_10k'' = Fin 5000" by (simp add: cell_def)
  have nz: "(5000 :: real) \<noteq> 0" by simp
  have mem: "?r0 \<in> set (rows ?out)" by simp
  have "cell ?r0 ''bigmac_pct'' = Fin 100"
    by (rule baseline_is_100[OF run entry first base nz mem refl])
  with run base nz show ?thesis by blast
qed

text \<open>
  C6 as stated fails: a baseline that exists and is not zero need not be finite.  With
  the Big Mac prices 0 on 1995-01-01 and 4.0 on 1996-01-01 the run completes; line 129
  gives the first point the affordability infinity, which \<open>dropna\<close> keeps; the baseline
  of the chart and the baseline of the combined entry are both infinity, and the
  percentage at the baseline date is infinity over infinity times 100, NaN, not 100.
\<close>

theorem baseline_infinite_gives_nan:
  "main \<lparr>cpi_csv = None, msp_csv = None, gasoline_csv = None, historical_csv = None,
         current_csv = Some [((1995, 1, 1), Fin 0), ((1996, 1, 1), Fin 4)]\<rparr>
     = Inr \<lparr>charts = [(''bigmac'',
              \<lparr>columns = [''price'', ''bigmac_per_10k'', ''bigmac_pct''],
               rows = [((1995, 1, 1), [(''price'', Fin 0), (''bigmac_per_10k'', PInf), (''bigmac_pct'', NaN)]),
                       ((1996, 1, 1), [(''price'', Fin 4), (''bigmac_per_10k'', Fin 2500), (''bigmac_pct'', Fin 0)])]\<rparr>)],
            combined_data = [(''Big Mac'',
              \<lparr>columns = [''price'', ''bigmac_per_10k'', ''pct''],
               rows = [((1995, 12, 31), [(''price'', Fin 0), (''bigmac_per_10k'', PInf), (''pct'', NaN)]),
                       ((1996, 12, 31), [(''price'', Fin 4), (''bigmac_per_10k'', Fin 2500), (''pct'', Fin 0)])]\<rparr>)]\<rparr>
   \<and> cell ((1995, 1, 1), [(''price'', Fin 0), (''bigmac_per_10k'', PInf), (''bigmac_pct'', NaN)])
          ''bigmac_per_10k'' \<noteq> Fin 0
   \<and> cell ((1995, 1, 1), [(''price'', Fin 0), (''bigmac_per_10k'', PInf), (''bigmac_pct'', NaN)])
          ''bigmac_pct'' \<noteq> Fin 100"
  by (simp add: main_def bind_err_def bigmac_combined_def load_def sort_values_def drop_duplicates_def
          build_summary_def Let_def chart_section_def when_present_def block_defs rebase_def column_def
          from_cutoff_def cutoff_def resample_YE_def assign_def select_def dropna_def cell_def
          year_of_def year_end_def fmean_def put_def)

subsection \<open>The combined table\<close>

lemma when_present_None:
  "when_present x block = Inr p \<Longrightarrow> (p = None) = (x = None)"
  by (auto simp: when_present_def bind_err_def split: option.splits sum.splits)

lemma combined_keys:
  "map fst (put ''Inverted CPI'' c4 (put ''Median Home'' c3 (put ''Gasoline'' c2 (put ''Big Mac'' (Some o1) []))))
     = ''Big Mac'' # (if c2 = None then [] else [''Gasoline''])
         @ (if c3 = None then [] else [''Median Home''])
         @ (if c4 = None then [] else [''Inverted CPI''])"
  by (cases c2; cases c3; cases c4) (simp_all add: put_def)

text \<open>
  C7, as the code has it.  The combined table is filled by four blocks in a fixed order,
  the one in which the summary section filled the summary dict: Big Mac, Gasoline,
  Median Home, Inverted CPI.  In a run that completes the Big Mac entry is always there
  and first, and each of the others is there when its series was loaded.  Neither the
  order in which the files are loaded (CPI, median home, gasoline, Big Mac) nor any
  order of supply plays a part: with gasoline, CPI and median home all present, the
  median home entry comes before the inverted CPI entry.
\<close>

theorem combined_order:
  assumes "main src = Inr rep"
  shows "map fst (combined_data rep)
           = ''Big Mac'' # (if gasoline_csv src = None then [] else [''Gasoline''])
               @ (if msp_csv src = None then [] else [''Median Home''])
               @ (if cpi_csv src = None then [] else [''Inverted CPI''])"
proof -
  from main_Inr[OF assms] obtain bm e where
      e: "e = build_summary bm (map_option (load ''price'') (gasoline_csv src))
                                 (map_option (load ''value'') (msp_csv src))
                                 (map_option (load ''value'') (cpi_csv src))"
    and cs: "chart_section e = Inr rep"
    by blast
  from chart_section_Inr[OF cs] obtain p1 p2 p3 p4 c1 c2 c3 c4 where
      c1: "when_present (map_of (summary e) ''bigmac'') bm_ann = Inr c1"
    and c2: "when_present (map_of (summary e) ''gasoline'') gas_ann = Inr c2"
    and c3: "when_present (map_of (summary e) ''median_home'') home_ann = Inr c3"
    and c4: "when_present (map_of (summary e) ''cpi'') ann_cpi = Inr c4"
    and rep: "rep = \<lparr>charts = put ''cpi'' p4 (put ''median_home'' p3 (put ''gasoline'' p2 (put ''bigmac'' p1 []))),
                     combined_data = put ''Inverted CPI'' c4 (put ''Median Home'' c3
                            (put ''Gasoline'' c2 (put ''Big Mac'' c1 [])))\<rparr>"
    by blast
  from when_present_None[OF c1] obtain o1 where o1: "c1 = Some o1"
    unfolding e summary_bigmac by auto
  from when_present_None[OF c2] have k2: "(c2 = None) = (gasoline_csv src = None)"
    unfolding e summary_gasoline by simp
  from when_present_None[OF c3] have k3: "(c3 = None) = (msp_csv src = None)"
    unfolding e summary_median_home by simp
  from when_present_None[OF c4] have k4: "(c4 = None) = (cpi_csv src = None)"
    unfolding e summary_cpi by simp
  have "map fst (combined_data rep)
          = ''Big Mac'' # (if c2 = None then [] else [''Gasoline''])
              @ (if c3 = None then [] else [''Median Home''])
              @ (if c4 = None then [] else [''Inverted CPI''])"
    unfolding rep o1 using combined_keys[of c4 c3 c2 o1] by simp
  then show ?thesis unfolding k2 k3 k4 .
qed

text \<open>An instance: a run with the Big Mac and gasoline series only.\<close>

theorem combined_order_witness:
  "main \<lparr>cpi_csv = None, msp_csv = None, gasoline_csv = Some [((1995, 6, 1), Fin 1.25)],
         historical_csv = Some [((1995, 4, 1), Fin 2.5)], current_csv = None\<rparr>
     = Inr \<lparr>charts =
              [(''bigmac'', \<lparr>columns = [''price'', ''bigmac_per_10k'', ''bigmac_pct''],
                  rows = [((1995, 4, 1), [(''price'', Fin 2.5), (''bigmac_per_10k'', Fin 4000), (''bigmac_pct'', Fin 100)])]\<rparr>),
               (''gasoline'', \<lparr>columns = [''price'', ''gallon_per_10k'', ''gallon_pct''],
                  rows = [((1995, 12, 31), [(''price'', Fin 1.25), (''gallon_per_10k'', Fin 8000), (''gallon_pct'', Fin 100)])]\<rparr>)],
            combined_data =
              [(''Big Mac'', \<lparr>columns = [''price'', ''bigmac_per_10k'', ''pct''],
                  rows = [((1995, 12, 31), [(''price'', Fin 2.5), (''bigmac_per_10k'', Fin 4000), (''pct'', Fin 100)])]\<rparr>),
               (''Gasoline'', \<lparr>columns = [''price'', ''gallon_per_10k'', ''pct''],
                  rows = [((1995, 12, 31), [(''price'', Fin 1.25), (''gallon_per_10k'', Fin 8000), (''pct'', Fin 100)])]\<rparr>)]\<rparr>
   \<and> map fst (combined_data \<lparr>charts =
              [(''bigmac'', \<lparr>columns = [''price'', ''bigmac_per_10k'', ''bigmac_pct''],
                  rows = [((1995, 4, 1), [(''price'', Fin 2.5), (''bigmac_per_10k'', Fin 4000), (''bigmac_pct'', Fin 100)])]\<rparr>),
               (''gasoline'', \<lparr>columns = [''price'', ''gallon_per_10k'', ''gallon_pct''],
                  rows = [((1995, 12, 31), [(''price'', Fin 1.25), (''gallon_per_10k'', Fin 8000), (''gallon_pct'', Fin 100)])]\<rparr>)],
            combined_data =
              [(''Big Mac'', \<lparr>columns = [''price'', ''bigmac_per_10k'', ''pct''],
                  rows = [((1995, 12, 31), [(''price'', Fin 2.5), (''bigmac_per_10k'', Fin 4000), (''pct'', Fin 100)])]\<rparr>),
               (''Gasoline'', \<lparr>columns = [''price'', ''gallon_per_10k'', ''pct''],
                  rows = [((1995, 12, 31), [(''price'', Fin 1.25), (''gallon_per_10k'', Fin 8000), (''pct'', Fin 100)])]\<rparr>)]\<rparr>)
     = [''Big Mac'', ''Gasoline'']"
proof -
  let ?src = "\<lparr>cpi_csv = None, msp_csv = None, gasoline_csv = Some [((1995, 6, 1), Fin 1.25)],
         historical_csv = Some [((1995, 4, 1), Fin 2.5)], current_csv = None\<rparr>"
  let ?rep = "\<lparr>charts =
              [(''bigmac'', \<lparr>columns = [''price'', ''bigmac_per_10k'', ''bigmac_pct''],
                  rows = [((1995, 4, 1), [(''price'', Fin 2.5), (''bigmac_per_10k'', Fin 4000), (''bigmac_pct'', Fin 100)])]\<rparr>),
               (''gasoline'', \<lparr>columns = [''price'', ''gallon_per_10k'', ''gallon_pct''],
                  rows = [((1995, 12, 31), [(''price'', Fin 1.25), (''gallon_per_10k'', Fin 8000), (''gallon_pct'', Fin 100)])]\<rparr>)],
            combined_data =
              [(''Big Mac'', \<lparr>columns = [''price'', ''bigmac_per_10k'', ''pct''],
                  rows = [((1995, 12, 31), [(''price'', Fin 2.5), (''bigmac_per_10k'', Fin 4000), (''pct'', Fin 100)])]\<rparr>),
               (''Gasoline'', \<lparr>columns = [''price'', ''gallon_per_10k'', ''pct''],
                  rows = [((1995, 12, 31), [(''price'', Fin 1.25), (''gallon_per_10k'', Fin 8000), (''pct'', Fin 100)])]\<rparr>)]\<rparr>"
  have run: "main ?src = Inr ?rep"
    by (simp add: main_def bind_err_def bigmac_combined_def load_def sort_values_def drop_duplicates_def
          build_summary_def Let_def chart_section_def when_present_def block_defs rebase_def column_def
          from_cutoff_def cutoff_def resample_YE_def assign_def select_def dropna_def cell_def
          year_of_def year_end_def fmean_def put_def)
  from combined_order[OF run] have "map fst (combined_data ?rep) = [''Big Mac'', ''Gasoline'']"
    by simp
  with run show ?thesis by blast
qed

text \<open>
  C7 as stated fails: with gasoline, CPI and median home present the entries do not
  come as gasoline, CPI, median home.  With a Big Mac segment present the table is
  Big Mac, Gasoline, Median Home, Inverted CPI; with both Big Mac files absent line 120
  raises KeyError and there is no table at all.
\<close>

theorem combined_order_is_fixed:
  "map_sum id (\<lambda>rep. map fst (combined_data rep))
     (main \<lparr>cpi_csv = Some [((1995, 1, 1), Fin 150)], msp_csv = Some [((1995, 1, 1), Fin 125000)],
            gasoline_csv = Some [((1995, 6, 1), Fin 1.25)],
            historical_csv = Some [((1995, 4, 1), Fin 2.5)], current_csv = None\<rparr>)
     = Inr [''Big Mac'', ''Gasoline'', ''Median Home'', ''Inverted CPI'']
   \<and> main \<lparr>cpi_csv = Some [((1995, 1, 1), Fin 150)], msp_csv = Some [((1995, 1, 1), Fin 125000)],
            gasoline_csv = Some [((1995, 6, 1), Fin 1.25)],
            historical_csv = None, current_csv = None\<rparr> = Inl KeyError"
  by (simp add: main_def bind_err_def bigmac_combined_def load_def sort_values_def drop_duplicates_def
          build_summary_def Let_def chart_section_def when_present_def block_defs rebase_def column_def
          from_cutoff_def cutoff_def resample_YE_def assign_def select_def dropna_def cell_def
          year_of_def year_end_def fmean_def flast_def put_def)

subsection \<open>Scenarios\<close>

text \<open>
  C8, as the code has it.  For the raw CPI points 260.0 on 2020-01-01, 262.0 on 2020-06-01
  and 270.0 on 2021-01-01 (all on or after the script's cutoff 1995-01-01), the annual
  frame is dated by year ends and its \<open>value\<close> column holds the means 261.0 and 270.0.
  What is rebased is not that column but the inverted CPI, \<open>1 / value\<close>: its annual means
  are 261/68120 and 1/270, and the rebased column holds 100 for 2020 and
  \<open>681200 / 7047\<close> (about 96.67) for 2021, in the CPI chart and in the combined table
  alike.
\<close>

theorem cpi_scenario:
  "map_option cpi_chart
     (cpi (build_summary (load ''price'' []) None None
            (Some (load ''value'' [((2020, 1, 1), Fin 260), ((2020, 6, 1), Fin 262), ((2021, 1, 1), Fin 270)]))))
     = Some (Inr \<lparr>columns = [''value'', ''inverted_pct'', ''inverted''],
                  rows = [((2020, 12, 31), [(''value'', Fin 261), (''inverted_pct'', Fin 100),
                                            (''inverted'', Fin (261 / 68120))]),
                          ((2021, 12, 31), [(''value'', Fin 270), (''inverted_pct'', Fin (681200 / 7047)),
                                            (''inverted'', Fin (1 / 270))])]\<rparr>)
   \<and> map_option ann_cpi
     (map_of (summary (build_summary (load ''price'' []) None None
            (Some (load ''value'' [((2020, 1, 1), Fin 260), ((2020, 6, 1), Fin 262), ((2021, 1, 1), Fin 270)]))))
        ''cpi'')
     = Some (Inr \<lparr>columns = [''value'', ''inverted_pct'', ''pct''],
                  rows = [((2020, 12, 31), [(''value'', Fin 261), (''inverted_pct'', Fin (261 / 68120)),
                                            (''pct'', Fin 100)]),
                          ((2021, 12, 31), [(''value'', Fin 270), (''inverted_pct'', Fin (1 / 270)),
                                            (''pct'', Fin (681200 / 7047))])]\<rparr>)"
  by (simp add: build_summary_def Let_def load_def block_defs rebase_def column_def
        from_cutoff_def cutoff_def resample_YE_def assign_def select_def cell_def
        year_of_def year_end_def fmean_def)

text \<open>
  C8 as stated fails: the rebased value for 2021 is \<open>681200 / 7047\<close>, below 100, and not
  \<open>270 / 261 * 100\<close>, which is above 100.
\<close>

theorem cpi_scenario_rebases_inverse:
  "map_option (map_sum id (\<lambda>df. map (\<lambda>r. (fst r, cell r ''inverted_pct'')) (rows df)) \<circ> cpi_chart)
     (cpi (build_summary (load ''price'' []) None None
            (Some (load ''value'' [((2020, 1, 1), Fin 260), ((2020, 6, 1), Fin 262), ((2021, 1, 1), Fin 270)]))))
     = Some (Inr [((2020, 12, 31), Fin 100), ((2021, 12, 31), Fin (681200 / 7047))])
   \<and> (681200 / 7047 :: real) < 100
   \<and> (100 :: real) < 270 / 261 * 100"
  by (simp add: build_summary_def Let_def load_def block_defs rebase_def column_def
        from_cutoff_def cutoff_def resample_YE_def assign_def select_def cell_def
        year_of_def year_end_def fmean_def)


end
